theory Spec2Isabelle
  imports Complex_Main
begin

section \<open>Data model of \<^verbatim>\<open>src/main.py\<close>\<close>

text \<open>
  The four SQLAlchemy models become records and every table is the list of its rows in
  insertion order. Python floats are read as real numbers; a \<^verbatim>\<open>DateTime\<close> is the
  number of microseconds on the naive time line and a \<^verbatim>\<open>Date\<close> is a day number, so
  that midnight of day \<open>d\<close> is \<open>d * 86400000000\<close>.
\<close>

type_synonym datetime = int
type_synonym date = int

record user =
  id :: int
  username :: string
  password :: string

record plant =
  id :: int
  name :: string
  user_id :: int
  latitude :: real
  longitude :: real
  capacity :: real
  size :: real
  panel_angle :: real
  panel_azimuth :: real

record forecast =
  id :: int
  plant_id :: int
  timestamp :: datetime
  ghi :: real
  dni :: real
  dhi :: real
  air_temp :: real
  cloud_opacity :: real

record plant_performance =
  id :: int
  plant_id :: int
  date :: date
  expected_output :: real

record database =
  users :: "user list"
  plants :: "plant list"
  forecasts :: "forecast list"
  performances :: "plant_performance list"

text \<open>An integer primary key is assigned by the database: one more than the largest in use.\<close>

definition next_id :: "int list \<Rightarrow> int" where
  "next_id ids = fold max ids 0 + 1"

definition midnight :: "date \<Rightarrow> datetime" where
  "midnight d = d * 86400000000"

text \<open>\<^verbatim>\<open>math.radians\<close>.\<close>

definition radians :: "real \<Rightarrow> real" where
  "radians x = x * pi / 180"

section \<open>\<^verbatim>\<open>calculate_plant_performance\<close>\<close>

text \<open>Lines 114 to 118: the rows of one plant whose timestamp lies in the day.\<close>

definition day_forecasts :: "forecast list \<Rightarrow> plant \<Rightarrow> date \<Rightarrow> forecast list" where
  "day_forecasts store plant today =
     filter (\<lambda>f. forecast.plant_id f = plant.id plant
                \<and> midnight today \<le> timestamp f
                \<and> timestamp f < midnight (today + 1)) store"

text \<open>Lines 120 to 126: the generator expression, its sum, and the division by 1000.\<close>

definition total_energy :: "plant \<Rightarrow> forecast list \<Rightarrow> real" where
  "total_energy plant fs =
     sum_list (map (\<lambda>f.
        (dni f * \<bar>sin (radians (panel_angle plant))\<bar> * cos (radians (panel_azimuth plant))
         + dhi f * (1 + cos (radians (panel_angle plant))) / 2
         + ghi f * 0.2 * (1 - cos (radians (panel_angle plant))) / 2)
        * plant.size plant * 0.15) fs) / 1000"

text \<open>Lines 128 to 133: the new row, added to the session.\<close>

definition add_performance :: "plant_performance list \<Rightarrow> int \<Rightarrow> date \<Rightarrow> real \<Rightarrow> plant_performance list" where
  "add_performance ledger pid today e =
     ledger @ [\<lparr>plant_performance.id = next_id (map plant_performance.id ledger),
                plant_id = pid, date = today, expected_output = e\<rparr>]"

text \<open>The loop of line 113 over the plants, threading the ledger.\<close>

fun performance_loop :: "date \<Rightarrow> forecast list \<Rightarrow> plant list \<Rightarrow> plant_performance list \<Rightarrow> plant_performance list" where
  "performance_loop today store [] ledger = ledger"
| "performance_loop today store (plant # rest) ledger =
     performance_loop today store rest
       (add_performance ledger (plant.id plant) today
          (total_energy plant (day_forecasts store plant today)))"

text \<open>The whole pass; \<open>today\<close> is what the clock returns at line 111.\<close>

definition calculate_plant_performance :: "date \<Rightarrow> database \<Rightarrow> database" where
  "calculate_plant_performance today db =
     db\<lparr>performances := performance_loop today (forecasts db) (plants db) (performances db)\<rparr>"

section \<open>Provider responses\<close>

text \<open>
  What \<^verbatim>\<open>response.json()\<close> returns is a Python value built from JSON; \<open>JNull\<close> is
  Python's \<^verbatim>\<open>None\<close>, and a dictionary is the list of its items.
\<close>

datatype json =
    JNull
  | JBool bool
  | JNum real
  | JStr string
  | JArr "json list"
  | JObj "(string \<times> json) list"

text \<open>
  The exceptions that can leave the two functions of the synchronisation pass. None of them
  is caught anywhere in the source.
\<close>

datatype error =
    ConnectionError
  | JSONDecodeError
  | KeyError string
  | TypeError
  | ValueError
  | StatementError

type_synonym 'a result = "error + 'a"

definition then_do :: "'a result \<Rightarrow> ('a \<Rightarrow> 'b result) \<Rightarrow> 'b result" where
  "then_do r f = (case r of Inl e \<Rightarrow> Inl e | Inr x \<Rightarrow> f x)"

text \<open>
  An HTTP response: its status code and its body, \<open>None\<close> when the body is not JSON.
  \<^verbatim>\<open>requests.get\<close> is a function of the coordinates (the rest of the URL is constant)
  that raises when the network fails; within one pass equal coordinates get equal answers.
\<close>

datatype response = Response (status_code: int) (body: "json option")

type_synonym provider = "real \<Rightarrow> real \<Rightarrow> response result"

datatype log_entry = Failed_to_fetch int

text \<open>
  Library behaviour the source relies on and does not define is a parameter:
  \<^verbatim>\<open>datetime.fromisoformat\<close> (\<open>None\<close> where it raises \<^verbatim>\<open>ValueError\<close>), the
  conversion a \<^verbatim>\<open>Float\<close> column applies to a bound value (\<open>None\<close> where the statement
  is rejected), and the two \<^verbatim>\<open>isoformat\<close> renderings.
\<close>

record platform =
  fromisoformat :: "string \<Rightarrow> datetime option"
  to_float :: "json \<Rightarrow> real option"
  isoformat :: "datetime \<Rightarrow> string"
  date_isoformat :: "date \<Rightarrow> string"

text \<open>\<^verbatim>\<open>value[key]\<close> with a string key.\<close>

fun getitem :: "json \<Rightarrow> string \<Rightarrow> json result" where
  "getitem (JObj items) k = (case map_of items k of None \<Rightarrow> Inl (KeyError k) | Some v \<Rightarrow> Inr v)"
| "getitem _ k = Inl TypeError"

text \<open>The truth value of a Python value, as \<^verbatim>\<open>if forecast_data:\<close> tests it.\<close>

fun truthy :: "json \<Rightarrow> bool" where
  "truthy JNull = False"
| "truthy (JBool b) = b"
| "truthy (JNum x) = (x \<noteq> 0)"
| "truthy (JStr s) = (s \<noteq> [])"
| "truthy (JArr xs) = (xs \<noteq> [])"
| "truthy (JObj items) = (items \<noteq> [])"

text \<open>What \<^verbatim>\<open>for data in forecast_data\<close> iterates over.\<close>

fun iterate :: "json \<Rightarrow> json list result" where
  "iterate (JArr xs) = Inr xs"
| "iterate (JObj items) = Inr (map (\<lambda>kv. JStr (fst kv)) items)"
| "iterate (JStr s) = Inr (map (\<lambda>c. JStr [c]) s)"
| "iterate _ = Inl TypeError"

section \<open>\<^verbatim>\<open>get_solcast_forecast\<close>\<close>

text \<open>
  Lines 70 to 77. The result is what was logged, and the value returned or the exception.
\<close>

definition get_solcast_forecast :: "provider \<Rightarrow> real \<Rightarrow> real \<Rightarrow> log_entry list \<times> json result" where
  "get_solcast_forecast requests_get lat lon =
     (case requests_get lat lon of
        Inl e \<Rightarrow> ([], Inl e)
      | Inr response \<Rightarrow>
          if status_code response = 200 then
            (case body response of
               None \<Rightarrow> ([], Inl JSONDecodeError)
             | Some j \<Rightarrow> ([], getitem j ''forecasts''))
          else ([Failed_to_fetch (status_code response)], Inr JNull))"

section \<open>\<^verbatim>\<open>update_forecast_data\<close>\<close>

type_synonym measures = "real \<times> real \<times> real \<times> real \<times> real"

text \<open>\<^verbatim>\<open>datetime.fromisoformat(data['period_end'])\<close>.\<close>

definition period_end :: "platform \<Rightarrow> json \<Rightarrow> datetime result" where
  "period_end P data =
     then_do (getitem data ''period_end'') (\<lambda>v.
       case v of
         JStr s \<Rightarrow> (case fromisoformat P s of None \<Rightarrow> Inl ValueError | Some t \<Rightarrow> Inr t)
       | _ \<Rightarrow> Inl TypeError)"

text \<open>
  \<^verbatim>\<open>data[k]\<close> as it reaches a \<^verbatim>\<open>Float\<close> column. The source stores the value as it
  is and the database rejects it at the next flush; the model rejects it where it is read.
\<close>

definition float_field :: "platform \<Rightarrow> json \<Rightarrow> string \<Rightarrow> real result" where
  "float_field P data k =
     then_do (getitem data k) (\<lambda>v.
       case to_float P v of None \<Rightarrow> Inl StatementError | Some x \<Rightarrow> Inr x)"

text \<open>The five fields, read in the order of lines 91 to 95 and of lines 100 to 104.\<close>

definition measured :: "platform \<Rightarrow> json \<Rightarrow> measures result" where
  "measured P data =
     then_do (float_field P data ''ghi'') (\<lambda>g.
     then_do (float_field P data ''dni'') (\<lambda>n.
     then_do (float_field P data ''dhi'') (\<lambda>h.
     then_do (float_field P data ''air_temp'') (\<lambda>a.
     then_do (float_field P data ''cloud_opacity'') (\<lambda>c.
       Inr (g, n, h, a, c))))))"

text \<open>Lines 91 to 95: the five assignments to the row that was found.\<close>

definition set_measures :: "forecast \<Rightarrow> measures \<Rightarrow> forecast" where
  "set_measures f m =
     (case m of (g, n, h, a, c) \<Rightarrow>
        f\<lparr>ghi := g, dni := n, dhi := h, air_temp := a, cloud_opacity := c\<rparr>)"

text \<open>Lines 97 to 105: the row that is created.\<close>

definition new_forecast :: "forecast list \<Rightarrow> int \<Rightarrow> datetime \<Rightarrow> measures \<Rightarrow> forecast" where
  "new_forecast store pid t m =
     (case m of (g, n, h, a, c) \<Rightarrow>
        \<lparr>forecast.id = next_id (map forecast.id store), plant_id = pid, timestamp = t,
         ghi = g, dni = n, dhi = h, air_temp = a, cloud_opacity = c\<rparr>)"

text \<open>The first stored row of the key is the one the assignments change.\<close>

fun overwrite_first :: "int \<Rightarrow> datetime \<Rightarrow> measures \<Rightarrow> forecast list \<Rightarrow> forecast list" where
  "overwrite_first pid t m [] = []"
| "overwrite_first pid t m (f # fs) =
     (if forecast.plant_id f = pid \<and> timestamp f = t then set_measures f m # fs
      else f # overwrite_first pid t m fs)"

text \<open>
  Lines 85 to 106 for one point whose fields were read. The query of line 85 runs in the
  session that holds the rows added so far (the session flushes before a query), so
  \<open>store\<close> is the table together with those rows.
\<close>

definition upsert :: "int \<Rightarrow> datetime \<Rightarrow> measures \<Rightarrow> forecast list \<Rightarrow> forecast list" where
  "upsert pid t m store =
     (case find (\<lambda>f. forecast.plant_id f = pid \<and> timestamp f = t) store of
        Some existing_forecast \<Rightarrow> overwrite_first pid t m store
      | None \<Rightarrow> store @ [new_forecast store pid t m])"

text \<open>The loop of line 84 over the points of one plant.\<close>

fun reconcile :: "platform \<Rightarrow> int \<Rightarrow> json list \<Rightarrow> forecast list \<Rightarrow> forecast list result" where
  "reconcile P pid [] store = Inr store"
| "reconcile P pid (data # rest) store =
     then_do (period_end P data) (\<lambda>t.
     then_do (measured P data) (\<lambda>m.
       reconcile P pid rest (upsert pid t m store)))"

text \<open>The loop of line 81 over the plants; an exception ends it.\<close>

fun update_loop :: "platform \<Rightarrow> provider \<Rightarrow> plant list \<Rightarrow> forecast list
    \<Rightarrow> log_entry list \<times> forecast list result" where
  "update_loop P requests_get [] store = ([], Inr store)"
| "update_loop P requests_get (plant # rest) store =
     (case get_solcast_forecast requests_get (latitude plant) (longitude plant) of
        (logged, Inl e) \<Rightarrow> (logged, Inl e)
      | (logged, Inr forecast_data) \<Rightarrow>
          if truthy forecast_data then
            (case then_do (iterate forecast_data) (\<lambda>points.
                    reconcile P (plant.id plant) points store) of
               Inl e \<Rightarrow> (logged, Inl e)
             | Inr store' \<Rightarrow>
                 (case update_loop P requests_get rest store' of
                    (logged', r) \<Rightarrow> (logged @ logged', r)))
          else
            (case update_loop P requests_get rest store of
               (logged', r) \<Rightarrow> (logged @ logged', r)))"

text \<open>
  The whole pass. The commit of line 108 is reached only when no exception was raised;
  otherwise the session is discarded with what it holds and nothing of the pass is stored.
\<close>

definition update_forecast_data :: "platform \<Rightarrow> provider \<Rightarrow> database
    \<Rightarrow> log_entry list \<times> database result" where
  "update_forecast_data P requests_get db =
     (case update_loop P requests_get (plants db) (forecasts db) of
        (logged, Inl e) \<Rightarrow> (logged, Inl e)
      | (logged, Inr store) \<Rightarrow> (logged, Inr (db\<lparr>forecasts := store\<rparr>)))"

text \<open>The database after a pass: the committed one, or the old one after an exception.\<close>

definition after_pass :: "database \<Rightarrow> log_entry list \<times> database result \<Rightarrow> database" where
  "after_pass db r = (case snd r of Inl e \<Rightarrow> db | Inr db' \<Rightarrow> db')"

text \<open>
  A history of passes. Each pass has its own provider answers, and the plant directory it
  finds is whatever the plant management left there.
\<close>

fun run_passes :: "platform \<Rightarrow> (provider \<times> plant list) list \<Rightarrow> database \<Rightarrow> database" where
  "run_passes P [] db = db"
| "run_passes P ((requests_get, directory) # rest) db =
     run_passes P rest
       (after_pass (db\<lparr>plants := directory\<rparr>)
          (update_forecast_data P requests_get (db\<lparr>plants := directory\<rparr>)))"

section \<open>The read endpoints\<close>

text \<open>
  A handler returns a body and a status. \<open>current_user\<close> is the identity of the token
  that \<^verbatim>\<open>jwt_required\<close> accepted. \<^verbatim>\<open>first()\<close> is the first row in table order, and
  \<^verbatim>\<open>order_by\<close> is a stable sort.
\<close>

definition msg :: "string \<Rightarrow> json" where
  "msg s = JObj [(''msg'', JStr s)]"

definition forecast_entry :: "platform \<Rightarrow> forecast \<Rightarrow> json" where
  "forecast_entry P f =
     JObj [(''timestamp'', JStr (isoformat P (timestamp f))),
           (''ghi'', JNum (ghi f)),
           (''dni'', JNum (dni f)),
           (''dhi'', JNum (dhi f)),
           (''air_temp'', JNum (air_temp f)),
           (''cloud_opacity'', JNum (cloud_opacity f))]"

definition plant_forecasts :: "database \<Rightarrow> plant \<Rightarrow> forecast list" where
  "plant_forecasts db plant =
     sort_key timestamp (filter (\<lambda>f. forecast.plant_id f = plant.id plant) (forecasts db))"

definition get_forecast :: "platform \<Rightarrow> database \<Rightarrow> string \<Rightarrow> string \<Rightarrow> json \<times> nat" where
  "get_forecast P db current_user plant_name =
     (case find (\<lambda>u. username u = current_user) (users db) of
        None \<Rightarrow> (msg ''User not found'', 404)
      | Some user \<Rightarrow>
          (case find (\<lambda>p. plant.user_id p = user.id user \<and> plant.name p = plant_name) (plants db) of
             None \<Rightarrow> (msg ''Plant not found'', 404)
           | Some plant \<Rightarrow> (JArr (map (forecast_entry P) (plant_forecasts db plant)), 200)))"

definition performance_entry :: "platform \<Rightarrow> plant_performance \<Rightarrow> json" where
  "performance_entry P p =
     JObj [(''date'', JStr (date_isoformat P (date p))),
           (''expected_output'', JNum (expected_output p))]"

definition plant_performances :: "database \<Rightarrow> plant \<Rightarrow> plant_performance list" where
  "plant_performances db plant =
     take 30 (sort_key (\<lambda>p. - date p)
       (filter (\<lambda>p. plant_performance.plant_id p = plant.id plant) (performances db)))"

definition get_performance :: "platform \<Rightarrow> database \<Rightarrow> string \<Rightarrow> string \<Rightarrow> json \<times> nat" where
  "get_performance P db current_user plant_name =
     (case find (\<lambda>u. username u = current_user) (users db) of
        None \<Rightarrow> (msg ''User not found'', 404)
      | Some user \<Rightarrow>
          (case find (\<lambda>p. plant.user_id p = user.id user \<and> plant.name p = plant_name) (plants db) of
             None \<Rightarrow> (msg ''Plant not found'', 404)
           | Some plant \<Rightarrow> (JArr (map (performance_entry P) (plant_performances db plant)), 200)))"

section \<open>The estimator as the specification words it\<close>

text \<open>The per-point contribution of section 4.3 of the specification.\<close>

definition spec_contribution :: "plant \<Rightarrow> forecast \<Rightarrow> real" where
  "spec_contribution plant f =
     dni f * \<bar>sin (radians (panel_angle plant))\<bar> * cos (radians (panel_azimuth plant))
     + dhi f * (1 + cos (radians (panel_angle plant))) / 2
     + ghi f * 0.2 * (1 - cos (radians (panel_angle plant))) / 2"

text \<open>The ranges the specification's data model gives for tilt and azimuth.\<close>

definition tilt_azimuth_in_range :: "plant \<Rightarrow> bool" where
  "tilt_azimuth_in_range plant =
     (0 \<le> panel_angle plant \<and> panel_angle plant \<le> 90
      \<and> 0 \<le> panel_azimuth plant \<and> panel_azimuth plant < 360)"

definition irradiance_nonneg :: "forecast \<Rightarrow> bool" where
  "irradiance_nonneg f = (0 \<le> ghi f \<and> 0 \<le> dni f \<and> 0 \<le> dhi f)"

definition geometry_in_range :: "plant \<Rightarrow> bool" where
  "geometry_in_range plant = (tilt_azimuth_in_range plant \<and> 0 < plant.size plant)"

text \<open>What a row of the ledger says, without its primary key.\<close>

definition row_content :: "plant_performance \<Rightarrow> int \<times> date \<times> real" where
  "row_content r = (plant_performance.plant_id r, date r, expected_output r)"

text \<open>The concrete scenario of section 8 of the specification, at noon of day 0.\<close>

definition scenario_plant :: plant where
  "scenario_plant =
     \<lparr>plant.id = 1, name = ''roof'', user_id = 1, latitude = 7, longitude = 80, capacity = 5,
      size = 10, panel_angle = 30, panel_azimuth = 180\<rparr>"

definition scenario_point :: forecast where
  "scenario_point =
     \<lparr>forecast.id = 1, plant_id = 1, timestamp = 43200000000,
      ghi = 500, dni = 600, dhi = 100, air_temp = 25, cloud_opacity = 0\<rparr>"

text \<open>A plant whose tilt, azimuth and area are all outside the ranges.\<close>

definition malformed_plant :: plant where
  "malformed_plant = scenario_plant\<lparr>size := - 10, panel_angle := 180, panel_azimuth := 360\<rparr>"

section \<open>The synchronisation pass as a list of writes\<close>

text \<open>
  Whether a pass raises, and which rows it writes, depends on the provider's answers only,
  not on the store. The writes of a pass are the points read, in order, each with the plant
  it belongs to; the pass applies them to the store one after the other.
\<close>

type_synonym row_key = "int \<times> datetime"
type_synonym row_write = "int \<times> datetime \<times> measures"

definition fkey :: "forecast \<Rightarrow> row_key" where
  "fkey f = (forecast.plant_id f, timestamp f)"

fun wkey :: "row_write \<Rightarrow> row_key" where
  "wkey (pid, t, m) = (pid, t)"

fun apply_write :: "row_write \<Rightarrow> forecast list \<Rightarrow> forecast list" where
  "apply_write (pid, t, m) store = upsert pid t m store"

fun point_writes :: "platform \<Rightarrow> int \<Rightarrow> json list \<Rightarrow> row_write list result" where
  "point_writes P pid [] = Inr []"
| "point_writes P pid (data # rest) =
     then_do (period_end P data) (\<lambda>t.
     then_do (measured P data) (\<lambda>m.
     then_do (point_writes P pid rest) (\<lambda>ws. Inr ((pid, t, m) # ws))))"

fun pass_writes :: "platform \<Rightarrow> provider \<Rightarrow> plant list \<Rightarrow> log_entry list \<times> row_write list result" where
  "pass_writes P requests_get [] = ([], Inr [])"
| "pass_writes P requests_get (plant # rest) =
     (case get_solcast_forecast requests_get (latitude plant) (longitude plant) of
        (logged, Inl e) \<Rightarrow> (logged, Inl e)
      | (logged, Inr forecast_data) \<Rightarrow>
          if truthy forecast_data then
            (case then_do (iterate forecast_data) (point_writes P (plant.id plant)) of
               Inl e \<Rightarrow> (logged, Inl e)
             | Inr ws \<Rightarrow>
                 (case pass_writes P requests_get rest of
                    (logged', r) \<Rightarrow> (logged @ logged', then_do r (\<lambda>ws'. Inr (ws @ ws')))))
          else
            (case pass_writes P requests_get rest of
               (logged', r) \<Rightarrow> (logged @ logged', r)))"

text \<open>The plants the pass skips: their fetch is answered with a status other than 200.\<close>

definition fetch_refused :: "provider \<Rightarrow> plant \<Rightarrow> bool" where
  "fetch_refused requests_get plant =
     (case requests_get (latitude plant) (longitude plant) of
        Inl e \<Rightarrow> False
      | Inr response \<Rightarrow> status_code response \<noteq> 200)"

text \<open>The plants at which an exception is raised, in the fetch or in the reconciliation.\<close>

definition plant_raises :: "platform \<Rightarrow> provider \<Rightarrow> plant \<Rightarrow> bool" where
  "plant_raises P requests_get plant =
     (case snd (get_solcast_forecast requests_get (latitude plant) (longitude plant)) of
        Inl e \<Rightarrow> True
      | Inr forecast_data \<Rightarrow>
          truthy forecast_data
          \<and> isl (then_do (iterate forecast_data) (point_writes P (plant.id plant))))"

section \<open>Example inputs\<close>

text \<open>
  A platform that knows two instants of one day, counted from its midnight, and whose
  \<^verbatim>\<open>Float\<close> columns take numbers only.
\<close>

definition demo_platform :: platform where
  "demo_platform =
     \<lparr>fromisoformat = (\<lambda>s. if s = ''2024-01-01T00:00:00'' then Some 0
                             else if s = ''2024-01-01T00:30:00'' then Some 1800000000
                             else None),
      to_float = (\<lambda>v. case v of JNum x \<Rightarrow> Some x | _ \<Rightarrow> None),
      isoformat = (\<lambda>t. if t = 0 then ''2024-01-01T00:00:00'' else ''2024-01-01T00:30:00''),
      date_isoformat = (\<lambda>d. ''2024-01-01'')\<rparr>"

text \<open>A well-formed entry of the provider's list, and a status-200 answer holding a list.\<close>

definition demo_point :: "string \<Rightarrow> real \<Rightarrow> json" where
  "demo_point p g =
     JObj [(''period_end'', JStr p), (''ghi'', JNum g), (''dni'', JNum 600), (''dhi'', JNum 100),
           (''air_temp'', JNum 25), (''cloud_opacity'', JNum 0)]"

definition answer :: "json list \<Rightarrow> response result" where
  "answer points = Inr (Response 200 (Some (JObj [(''forecasts'', JArr points)])))"

text \<open>
  A provider that answers latitude 7 with three points, two of them for the same instant,
  latitude 8 with an entry that lacks its measurements, and everything else with status 503.
\<close>

definition demo_provider :: provider where
  "demo_provider lat lon =
     (if lat = 7 then
        answer [demo_point ''2024-01-01T00:00:00'' 500,
                demo_point ''2024-01-01T00:30:00'' 400,
                demo_point ''2024-01-01T00:00:00'' 300]
      else if lat = 8 then
        answer [JObj [(''period_end'', JStr ''2024-01-01T00:00:00'')]]
      else Inr (Response 503 None))"

definition second_plant :: plant where
  "second_plant = scenario_plant\<lparr>plant.id := 2, name := ''field'', latitude := 8\<rparr>"

definition third_plant :: plant where
  "third_plant = scenario_plant\<lparr>plant.id := 3, name := ''barn'', user_id := 2, latitude := 9\<rparr>"

definition demo_db :: "plant list \<Rightarrow> database" where
  "demo_db directory =
     \<lparr>users = [\<lparr>user.id = 1, username = ''alice'', password = ''a''\<rparr>,
               \<lparr>user.id = 2, username = ''bob'', password = ''b''\<rparr>],
      plants = directory, forecasts = [], performances = []\<rparr>"

section \<open>Facts about the estimator\<close>

lemma total_energy_sum:
  "total_energy plant fs =
     sum_list (map (spec_contribution plant) fs) * plant.size plant * 0.15 / 1000"
proof -
  have "sum_list (map (\<lambda>f. spec_contribution plant f * plant.size plant * 0.15) fs)
        = sum_list (map (spec_contribution plant) fs) * plant.size plant * 0.15"
    by (induction fs) (simp_all add: algebra_simps)
  then show ?thesis
    by (simp add: total_energy_def spec_contribution_def)
qed

lemma sin_radians_30: "sin (radians 30) = 1 / 2"
  by (simp add: radians_def sin_30)

lemma cos_radians_30: "cos (radians 30) = sqrt 3 / 2"
  by (simp add: radians_def cos_30)

lemma cos_radians_180: "cos (radians 180) = - 1"
  by (simp add: radians_def)

lemma scenario_contribution:
  assumes "panel_angle plant = 30" "panel_azimuth plant = 180"
    and "ghi f = 500" "dni f = 600" "dhi f = 100"
  shows "spec_contribution plant f = - 200"
  using assms
  by (simp add: spec_contribution_def sin_radians_30 cos_radians_30 cos_radians_180 field_simps)

lemma performance_loop_rows:
  "take (length ledger) (performance_loop today store ps ledger) = ledger
   \<and> map row_content (drop (length ledger) (performance_loop today store ps ledger))
       = map (\<lambda>p. (plant.id p, today, total_energy p (day_forecasts store p today))) ps"
proof (induction ps arbitrary: ledger)
  case Nil
  show ?case by simp
next
  case (Cons p ps)
  let ?l = "add_performance ledger (plant.id p) today (total_energy p (day_forecasts store p today))"
  let ?r = "performance_loop today store ps ?l"
  have len: "length ?l = Suc (length ledger)"
    by (simp add: add_performance_def)
  have t: "take (length ?l) ?r = ?l" and d: "map row_content (drop (length ?l) ?r)
       = map (\<lambda>p. (plant.id p, today, total_energy p (day_forecasts store p today))) ps"
    using Cons.IH [of ?l] by simp_all
  have r: "?r = ?l @ drop (length ?l) ?r"
    using t by (metis append_take_drop_id)
  have "take (length ledger) ?r = take (length ledger) ?l"
    by (subst r) (simp add: len)
  then have t': "take (length ledger) ?r = ledger"
    by (simp add: add_performance_def)
  have "drop (length ledger) ?r = drop (length ledger) ?l @ drop (length ?l) ?r"
    by (subst r) (simp add: len)
  then have "map row_content (drop (length ledger) ?r)
      = (plant.id p, today, total_energy p (day_forecasts store p today))
        # map row_content (drop (length ?l) ?r)"
    by (simp add: add_performance_def row_content_def)
  with d t' show ?case by simp
qed

lemma radians_bounds:
  assumes "lo \<le> a" "a \<le> hi"
  shows "lo / 180 * pi \<le> radians a" "radians a \<le> hi / 180 * pi"
proof -
  have "lo / 180 \<le> a / 180" "a / 180 \<le> hi / 180"
    using assms by simp_all
  then have "lo / 180 * pi \<le> a / 180 * pi" "a / 180 * pi \<le> hi / 180 * pi"
    by (simp_all add: mult_right_mono)
  then show "lo / 180 * pi \<le> radians a" "radians a \<le> hi / 180 * pi"
    by (simp_all add: radians_def)
qed

lemma cos_radians_nonneg:
  assumes "0 \<le> a" "a < 360" "a \<le> 90 \<or> 270 \<le> a"
  shows "0 \<le> cos (radians a)"
proof (cases "a \<le> 90")
  case True
  from radians_bounds [OF assms(1) True]
  have "- (pi / 2) \<le> radians a" "radians a \<le> pi / 2"
    using pi_ge_zero by simp_all
  then show ?thesis by (rule cos_ge_zero)
next
  case False
  with assms have a: "270 \<le> a" "a \<le> 360" by simp_all
  have "cos (radians a) = cos (radians a - 2 * pi)"
    using cos_periodic [of "radians a - 2 * pi"] by simp
  moreover from radians_bounds [OF a]
  have "- (pi / 2) \<le> radians a - 2 * pi" "radians a - 2 * pi \<le> pi / 2"
    using pi_ge_zero by simp_all
  then have "0 \<le> cos (radians a - 2 * pi)" by (rule cos_ge_zero)
  ultimately show ?thesis by simp
qed

lemma spec_contribution_nonneg:
  assumes "0 \<le> cos (radians (panel_azimuth plant))" "irradiance_nonneg f"
  shows "0 \<le> spec_contribution plant f"
proof -
  have f: "0 \<le> ghi f" "0 \<le> dni f" "0 \<le> dhi f"
    using assms(2) by (simp_all add: irradiance_nonneg_def)
  have c: "0 \<le> 1 + cos (radians (panel_angle plant))" "0 \<le> 1 - cos (radians (panel_angle plant))"
    using cos_ge_minus_one [of "radians (panel_angle plant)"] cos_le_one [of "radians (panel_angle plant)"]
    by linarith+
  have "0 \<le> dni f * \<bar>sin (radians (panel_angle plant))\<bar> * cos (radians (panel_azimuth plant))"
    using assms(1) f by simp
  moreover have "0 \<le> dhi f * (1 + cos (radians (panel_angle plant))) / 2"
    using f c by simp
  moreover have "0 \<le> ghi f * 0.2 * (1 - cos (radians (panel_angle plant))) / 2"
    using f c by simp
  ultimately show ?thesis by (simp add: spec_contribution_def)
qed

text \<open>
  Claim C1. For every plant and every list of forecast points the estimator's result is the
  sum over the points of the contribution
  \<open>DNI * |sin tilt| * cos azimuth + DHI * (1 + cos tilt) / 2 + GHI * 0.2 * (1 - cos tilt) / 2\<close>,
  multiplied by the panel area and by 0.15 and divided by 1000; a plant with tilt 30,
  azimuth 180 and area 10 and one point with GHI 500, DNI 600 and DHI 100 give \<open>-0.3\<close>.
\<close>

theorem estimator_formula:
  "total_energy plant fs
     = sum_list (map (spec_contribution plant) fs) * plant.size plant * 0.15 / 1000
   \<and> total_energy (plant\<lparr>size := 10, panel_angle := 30, panel_azimuth := 180\<rparr>)
        [f\<lparr>ghi := 500, dni := 600, dhi := 100\<rparr>] = - 0.3"
proof
  show "total_energy plant fs
     = sum_list (map (spec_contribution plant) fs) * plant.size plant * 0.15 / 1000"
    by (rule total_energy_sum)
next
  have "spec_contribution (plant\<lparr>size := 10, panel_angle := 30, panel_azimuth := 180\<rparr>)
          (f\<lparr>ghi := 500, dni := 600, dhi := 100\<rparr>) = - 200"
    by (rule scenario_contribution) simp_all
  then show "total_energy (plant\<lparr>size := 10, panel_angle := 30, panel_azimuth := 180\<rparr>)
        [f\<lparr>ghi := 500, dni := 600, dhi := 100\<rparr>] = - 0.3"
    by (simp add: total_energy_sum)
qed

text \<open>
  Claim C6, as amended. When tilt and azimuth are in range, the azimuth is moreover within
  90 degrees of north (at most 90 or more than 270), the area is not negative and no
  irradiance value of any point is negative, the estimator's result is not negative.
\<close>

theorem estimator_nonneg_north_facing:
  assumes "tilt_azimuth_in_range plant"
    and "panel_azimuth plant \<le> 90 \<or> 270 < panel_azimuth plant"
    and "0 \<le> plant.size plant"
    and "\<forall>f \<in> set fs. irradiance_nonneg f"
  shows "0 \<le> total_energy plant fs"
proof -
  have "0 \<le> cos (radians (panel_azimuth plant))"
    using assms(1,2) by (intro cos_radians_nonneg) (auto simp: tilt_azimuth_in_range_def)
  with assms(4) have "\<forall>f \<in> set fs. 0 \<le> spec_contribution plant f"
    by (simp add: spec_contribution_nonneg)
  then have "0 \<le> sum_list (map (spec_contribution plant) fs)"
    by (intro sum_list_nonneg) auto
  with assms(3) show ?thesis
    by (simp add: total_energy_sum)
qed

text \<open>The amended claim C6 at the scenario plant turned to face north.\<close>

theorem estimator_nonneg_north_facing_witness:
  "0 \<le> total_energy (scenario_plant\<lparr>panel_azimuth := 0\<rparr>) [scenario_point]"
  using estimator_nonneg_north_facing [of "scenario_plant\<lparr>panel_azimuth := 0\<rparr>" "[scenario_point]"]
  by (simp add: scenario_plant_def scenario_point_def tilt_azimuth_in_range_def irradiance_nonneg_def)

text \<open>
  Claim C6 as first stated fails: the scenario plant has tilt and azimuth in range, its point
  has no negative irradiance value, and the result is negative.
\<close>

theorem estimator_negative_south_facing:
  "tilt_azimuth_in_range scenario_plant \<and> irradiance_nonneg scenario_point
   \<and> total_energy scenario_plant [scenario_point] < 0"
proof -
  have "spec_contribution scenario_plant scenario_point = - 200"
    by (rule scenario_contribution) (simp_all add: scenario_plant_def scenario_point_def)
  then have "total_energy scenario_plant [scenario_point] = - 0.3"
    by (simp add: total_energy_sum scenario_plant_def)
  then show ?thesis
    by (simp add: tilt_azimuth_in_range_def irradiance_nonneg_def scenario_plant_def scenario_point_def)
qed

lemma calculate_rows:
  "take (length (performances db)) (performances (calculate_plant_performance today db)) = performances db"
  "map row_content (drop (length (performances db)) (performances (calculate_plant_performance today db)))
     = map (\<lambda>p. (plant.id p, today, total_energy p (day_forecasts (forecasts db) p today))) (plants db)"
  using performance_loop_rows [of "performances db" today "forecasts db" "plants db"]
  by (simp_all add: calculate_plant_performance_def)

lemma performance_loop_length:
  "length (performance_loop today store ps ledger) = length ledger + length ps"
  by (induction ps arbitrary: ledger) (simp_all add: add_performance_def)

lemma calculate_length:
  "length (performances (calculate_plant_performance today db))
     = length (performances db) + length (plants db)"
  by (simp add: calculate_plant_performance_def performance_loop_length)

lemma calculate_keeps:
  "plants (calculate_plant_performance today db) = plants db"
  "forecasts (calculate_plant_performance today db) = forecasts db"
  "users (calculate_plant_performance today db) = users db"
  by (simp_all add: calculate_plant_performance_def)

text \<open>
  Claim C7. A performance pass keeps every row of the ledger and appends one row for each
  plant of the directory, in order, holding the plant, the day and the estimate; it never
  looks for a row of the same plant and day, so a second pass for the same day appends the
  same contents again and the ledger has grown by two rows for each plant.
\<close>

theorem performance_pass_appends:
  "take (length (performances db)) (performances (calculate_plant_performance today db))
     = performances db
   \<and> map row_content (drop (length (performances db))
        (performances (calculate_plant_performance today db)))
     = map (\<lambda>p. (plant.id p, today, total_energy p (day_forecasts (forecasts db) p today)))
         (plants db)
   \<and> length (performances (calculate_plant_performance today db))
     = length (performances db) + length (plants db)
   \<and> map row_content (drop (length (performances db) + length (plants db))
        (performances (calculate_plant_performance today (calculate_plant_performance today db))))
     = map row_content (drop (length (performances db))
        (performances (calculate_plant_performance today db)))
   \<and> length (performances (calculate_plant_performance today (calculate_plant_performance today db)))
     = length (performances db) + 2 * length (plants db)"
proof -
  let ?db1 = "calculate_plant_performance today db"
  have "map row_content (drop (length (performances ?db1))
          (performances (calculate_plant_performance today ?db1)))
        = map (\<lambda>p. (plant.id p, today, total_energy p (day_forecasts (forecasts db) p today)))
            (plants db)"
    using calculate_rows(2) [of ?db1 today] by (simp add: calculate_keeps)
  then have "map row_content (drop (length (performances db) + length (plants db))
        (performances (calculate_plant_performance today ?db1)))
     = map row_content (drop (length (performances db)) (performances ?db1))"
    by (simp add: calculate_length calculate_rows(2))
  moreover have "length (performances (calculate_plant_performance today ?db1))
     = length (performances db) + 2 * length (plants db)"
    by (simp add: calculate_length calculate_keeps)
  ultimately show ?thesis
    by (simp add: calculate_rows calculate_length)
qed

text \<open>
  Claim C8. When no stored point of the plant has its timestamp in the half-open window from
  midnight of the day to midnight of the next day, the estimate is exactly 0, and the pass
  (which cannot raise) writes a row with the value 0 for that plant and day.
\<close>

theorem empty_window_zero:
  assumes "\<forall>f \<in> set store. forecast.plant_id f = plant.id plant
             \<longrightarrow> \<not> (midnight today \<le> timestamp f \<and> timestamp f < midnight (today + 1))"
  shows "total_energy plant (day_forecasts store plant today) = 0
         \<and> map row_content (performances (calculate_plant_performance today
               \<lparr>users = us, plants = [plant], forecasts = store, performances = []\<rparr>))
           = [(plant.id plant, today, 0)]"
proof -
  have "day_forecasts store plant today = []"
    using assms by (auto simp: day_forecasts_def filter_empty_conv)
  then have z: "total_energy plant (day_forecasts store plant today) = 0"
    by (simp add: total_energy_def)
  then show ?thesis
    by (simp add: calculate_plant_performance_def add_performance_def row_content_def)
qed

text \<open>Claim C8 at a store whose only point lies at the very end of the window, outside it.\<close>

theorem empty_window_zero_witness:
  "total_energy scenario_plant
      (day_forecasts [scenario_point\<lparr>timestamp := midnight 1\<rparr>] scenario_plant 0) = 0
   \<and> map row_content (performances (calculate_plant_performance 0
        \<lparr>users = [], plants = [scenario_plant],
         forecasts = [scenario_point\<lparr>timestamp := midnight 1\<rparr>], performances = []\<rparr>))
     = [(1, 0, 0)]"
  using empty_window_zero [of "[scenario_point\<lparr>timestamp := midnight 1\<rparr>]" scenario_plant 0 "[]"]
  by (simp add: scenario_plant_def scenario_point_def midnight_def)

text \<open>
  Claim C9 as first stated fails: a plant whose tilt, azimuth and area are all out of range is
  neither detected nor skipped; the pass estimates it and writes its row.
\<close>

theorem malformed_plant_estimated:
  "\<not> geometry_in_range malformed_plant
   \<and> map row_content (performances (calculate_plant_performance 0
        \<lparr>users = [], plants = [malformed_plant], forecasts = [scenario_point],
         performances = []\<rparr>))
     = [(1, 0, - 0.15)]"
proof -
  have "sin (radians 180) = 0" "cos (radians 180) = - 1" "cos (radians 360) = 1"
    by (simp_all add: radians_def)
  then have "total_energy malformed_plant [scenario_point] = - 0.15"
    by (simp add: total_energy_def malformed_plant_def scenario_plant_def scenario_point_def)
  moreover have "day_forecasts [scenario_point] malformed_plant 0 = [scenario_point]"
    by (simp add: day_forecasts_def malformed_plant_def scenario_plant_def scenario_point_def midnight_def)
  ultimately show ?thesis
    by (simp add: calculate_plant_performance_def add_performance_def row_content_def
        geometry_in_range_def malformed_plant_def scenario_plant_def)
qed

text \<open>
  Claim C9, as amended. The estimation pass validates no geometry: every plant of the
  directory, whatever its tilt, azimuth and area, has its estimate computed by the formula
  and written as a new row, and the pass writes as many rows as there are plants.
\<close>

theorem no_geometry_validation:
  assumes "plant \<in> set (plants db)"
  shows "(plant.id plant, today, total_energy plant (day_forecasts (forecasts db) plant today))
           \<in> set (map row_content (drop (length (performances db))
                (performances (calculate_plant_performance today db))))
         \<and> length (performances (calculate_plant_performance today db))
           = length (performances db) + length (plants db)"
  using assms by (auto simp: calculate_rows(2) calculate_length)

text \<open>The amended claim C9 at a directory of the scenario plant and the malformed plant.\<close>

theorem no_geometry_validation_witness:
  "(1, 0, total_energy malformed_plant (day_forecasts [scenario_point] malformed_plant 0))
     \<in> set (map row_content (drop 0 (performances (calculate_plant_performance 0
          \<lparr>users = [], plants = [scenario_plant, malformed_plant], forecasts = [scenario_point],
           performances = []\<rparr>))))"
  using no_geometry_validation [of malformed_plant
      "\<lparr>users = [], plants = [scenario_plant, malformed_plant], forecasts = [scenario_point],
        performances = []\<rparr>" 0]
  by (simp add: malformed_plant_def scenario_plant_def)



section \<open>Facts about the reconciliation\<close>

lemma find_key_None:
  "find (\<lambda>f. forecast.plant_id f = pid \<and> timestamp f = t) store = None
     \<longleftrightarrow> (pid, t) \<notin> fkey ` set store"
  by (induction store) (auto simp: fkey_def)

lemma upsert_present:
  "(pid, t) \<in> fkey ` set store \<Longrightarrow> upsert pid t m store = overwrite_first pid t m store"
  using find_key_None [of pid t store] by (auto simp: upsert_def split: option.splits)

lemma upsert_absent:
  "(pid, t) \<notin> fkey ` set store
     \<Longrightarrow> upsert pid t m store = store @ [new_forecast store pid t m]"
  using find_key_None [of pid t store] by (simp add: upsert_def)

lemma fkey_set_measures [simp]: "fkey (set_measures f m) = fkey f"
  by (cases m) (simp add: set_measures_def fkey_def)

lemma id_set_measures [simp]: "forecast.id (set_measures f m) = forecast.id f"
  by (cases m) (simp add: set_measures_def)

lemma set_measures_twice [simp]: "set_measures (set_measures f m1) m2 = set_measures f m2"
  by (cases m1, cases m2) (simp add: set_measures_def)

lemma fkey_new_forecast [simp]: "fkey (new_forecast store pid t m) = (pid, t)"
  by (cases m) (simp add: new_forecast_def fkey_def)

lemma set_measures_new_forecast [simp]:
  "set_measures (new_forecast store pid t m1) m2 = new_forecast store pid t m2"
  by (cases m1, cases m2) (simp add: set_measures_def new_forecast_def)

lemma new_forecast_ids:
  "map forecast.id s = map forecast.id s' \<Longrightarrow> new_forecast s pid t m = new_forecast s' pid t m"
  by (cases m) (simp add: new_forecast_def)

lemma overwrite_first_alt:
  "overwrite_first pid t m (f # fs) =
     (if fkey f = (pid, t) then set_measures f m # fs else f # overwrite_first pid t m fs)"
  by (simp add: fkey_def)

lemma keys_overwrite_first [simp]:
  "map fkey (overwrite_first pid t m store) = map fkey store"
  by (induction store) (simp_all add: overwrite_first_alt del: overwrite_first.simps(2))

lemma keyset_overwrite_first [simp]:
  "fkey ` set (overwrite_first pid t m store) = fkey ` set store"
  using keys_overwrite_first [of pid t m store] by (metis set_map)

lemma ids_overwrite_first [simp]:
  "map forecast.id (overwrite_first pid t m store) = map forecast.id store"
  by (induction store) (simp_all add: overwrite_first_alt del: overwrite_first.simps(2))

lemma overwrite_first_absent:
  "(pid, t) \<notin> fkey ` set store \<Longrightarrow> overwrite_first pid t m store = store"
  by (induction store) (auto simp: overwrite_first_alt simp del: overwrite_first.simps(2))

lemma overwrite_first_append:
  "overwrite_first pid t m (xs @ ys) =
     (if (pid, t) \<in> fkey ` set xs then overwrite_first pid t m xs @ ys
      else xs @ overwrite_first pid t m ys)"
  by (induction xs) (auto simp: overwrite_first_alt simp del: overwrite_first.simps(2))

lemma overwrite_first_twice:
  "overwrite_first pid t m2 (overwrite_first pid t m1 store) = overwrite_first pid t m2 store"
  by (induction store) (auto simp: overwrite_first_alt simp del: overwrite_first.simps(2))

lemma overwrite_first_commute:
  "(p1, t1) \<noteq> (p2, t2) \<Longrightarrow>
   overwrite_first p1 t1 m1 (overwrite_first p2 t2 m2 store)
     = overwrite_first p2 t2 m2 (overwrite_first p1 t1 m1 store)"
  by (induction store) (auto simp: overwrite_first_alt simp del: overwrite_first.simps(2))

lemma keys_upsert:
  "fkey ` set (upsert pid t m store) = insert (pid, t) (fkey ` set store)"
proof (cases "(pid, t) \<in> fkey ` set store")
  case True
  then show ?thesis by (auto simp: upsert_present)
next
  case False
  then show ?thesis by (simp add: upsert_absent)
qed

lemma distinct_upsert:
  "distinct (map fkey store) \<Longrightarrow> distinct (map fkey (upsert pid t m store))"
proof (cases "(pid, t) \<in> fkey ` set store")
  case True
  moreover assume "distinct (map fkey store)"
  ultimately show ?thesis by (simp add: upsert_present)
next
  case False
  moreover assume "distinct (map fkey store)"
  ultimately show ?thesis by (simp add: upsert_absent)
qed

lemma upsert_absorb:
  "upsert pid t m2 (upsert pid t m1 store) = upsert pid t m2 store"
proof (cases "(pid, t) \<in> fkey ` set store")
  case True
  then show ?thesis by (simp add: upsert_present overwrite_first_twice)
next
  case False
  then have "upsert pid t m2 (upsert pid t m1 store)
      = overwrite_first pid t m2 (store @ [new_forecast store pid t m1])"
    by (simp add: upsert_absent upsert_present)
  also have "\<dots> = store @ [new_forecast store pid t m2]"
    using False by (simp add: overwrite_first_append overwrite_first_alt del: overwrite_first.simps(2))
  finally show ?thesis using False by (simp add: upsert_absent)
qed

lemma upsert_commute:
  assumes "(p1, t1) \<noteq> (p2, t2)" "(p1, t1) \<in> fkey ` set store"
  shows "upsert p1 t1 m1 (upsert p2 t2 m2 store) = upsert p2 t2 m2 (upsert p1 t1 m1 store)"
proof (cases "(p2, t2) \<in> fkey ` set store")
  case True
  with assms(2) show ?thesis
    by (simp add: upsert_present overwrite_first_commute [OF assms(1)])
next
  case False
  have "upsert p1 t1 m1 (upsert p2 t2 m2 store)
      = overwrite_first p1 t1 m1 (store @ [new_forecast store p2 t2 m2])"
    using False assms by (simp add: upsert_absent upsert_present)
  also have "\<dots> = overwrite_first p1 t1 m1 store @ [new_forecast store p2 t2 m2]"
    using assms by (simp add: overwrite_first_append)
  also have "\<dots> = overwrite_first p1 t1 m1 store
                    @ [new_forecast (overwrite_first p1 t1 m1 store) p2 t2 m2]"
    using new_forecast_ids [of "overwrite_first p1 t1 m1 store" store] by simp
  also have "\<dots> = upsert p2 t2 m2 (upsert p1 t1 m1 store)"
    using False assms by (simp add: upsert_absent upsert_present)
  finally show ?thesis .
qed

lemma keys_apply_write:
  "fkey ` set (apply_write w store) = insert (wkey w) (fkey ` set store)"
  by (cases w) (simp add: keys_upsert)

lemma keys_fold_write:
  "fkey ` set (fold apply_write ws store) = wkey ` set ws \<union> fkey ` set store"
  by (induction ws arbitrary: store) (auto simp: keys_apply_write)

lemma distinct_fold_write:
  "distinct (map fkey store) \<Longrightarrow> distinct (map fkey (fold apply_write ws store))"
proof (induction ws arbitrary: store)
  case Nil
  then show ?case by simp
next
  case (Cons w ws)
  then show ?case by (cases w) (simp add: distinct_upsert)
qed

lemma apply_write_absorb:
  "wkey v = wkey w \<Longrightarrow> apply_write v (apply_write w store) = apply_write v store"
  by (cases v, cases w) (simp add: upsert_absorb)

lemma apply_write_commute:
  assumes "wkey v \<noteq> wkey w" "wkey w \<in> fkey ` set store"
  shows "apply_write v (apply_write w store) = apply_write w (apply_write v store)"
proof -
  obtain p1 t1 m1 where w: "w = (p1, t1, m1)" by (cases w)
  obtain p2 t2 m2 where v: "v = (p2, t2, m2)" by (cases v)
  have "upsert p1 t1 m1 (upsert p2 t2 m2 store) = upsert p2 t2 m2 (upsert p1 t1 m1 store)"
    using assms unfolding w v by (intro upsert_commute) auto
  then show ?thesis by (simp add: w v)
qed

lemma fold_write_past:
  "wkey w \<in> fkey ` set store \<Longrightarrow> wkey w \<notin> wkey ` set ws
     \<Longrightarrow> fold apply_write ws (apply_write w store) = apply_write w (fold apply_write ws store)"
proof (induction ws arbitrary: store)
  case Nil
  show ?case by simp
next
  case (Cons v vs)
  have "apply_write v (apply_write w store) = apply_write w (apply_write v store)"
    using Cons.prems by (intro apply_write_commute) auto
  moreover have "wkey w \<in> fkey ` set (apply_write v store)"
    using Cons.prems by (simp add: keys_apply_write)
  ultimately show ?case
    using Cons.IH [of "apply_write v store"] Cons.prems by simp
qed

lemma fold_write_overwritten:
  "wkey w \<in> fkey ` set store \<Longrightarrow> wkey w \<in> wkey ` set ws
     \<Longrightarrow> fold apply_write ws (apply_write w store) = fold apply_write ws store"
proof (induction ws arbitrary: store)
  case Nil
  then show ?case by simp
next
  case (Cons v vs)
  show ?case
  proof (cases "wkey v = wkey w")
    case True
    then show ?thesis by (simp add: apply_write_absorb)
  next
    case False
    then have "apply_write v (apply_write w store) = apply_write w (apply_write v store)"
      using Cons.prems by (intro apply_write_commute) auto
    moreover have "wkey w \<in> fkey ` set (apply_write v store)"
      using Cons.prems by (simp add: keys_apply_write)
    moreover have "wkey w \<in> wkey ` set vs"
      using Cons.prems False by auto
    ultimately show ?thesis
      using Cons.IH [of "apply_write v store"] by simp
  qed
qed

lemma fold_write_idem:
  "fold apply_write ws (fold apply_write ws store) = fold apply_write ws store"
proof (induction ws arbitrary: store)
  case Nil
  show ?case by simp
next
  case (Cons w ws)
  let ?t = "apply_write w store"
  let ?u = "fold apply_write ws ?t"
  have kt: "wkey w \<in> fkey ` set ?t"
    by (simp add: keys_apply_write)
  then have ku: "wkey w \<in> fkey ` set ?u"
    by (simp add: keys_fold_write)
  have "fold apply_write ws (apply_write w ?u) = ?u"
  proof (cases "wkey w \<in> wkey ` set ws")
    case True
    then have "fold apply_write ws (apply_write w ?u) = fold apply_write ws ?u"
      using ku by (rule fold_write_overwritten [rotated])
    then show ?thesis by (simp add: Cons.IH)
  next
    case False
    have "fold apply_write ws (apply_write w ?u) = apply_write w (fold apply_write ws ?u)"
      using ku False by (rule fold_write_past)
    also have "\<dots> = apply_write w ?u" by (simp add: Cons.IH)
    also have "\<dots> = fold apply_write ws (apply_write w ?t)"
      using kt False by (rule fold_write_past [symmetric])
    also have "\<dots> = ?u" by (simp add: apply_write_absorb)
    finally show ?thesis .
  qed
  then show ?case by simp
qed

lemma reconcile_writes:
  "reconcile P pid points store
     = then_do (point_writes P pid points) (\<lambda>ws. Inr (fold apply_write ws store))"
  by (induction points arbitrary: store) (auto simp: then_do_def split: sum.splits)

lemma update_loop_writes:
  "update_loop P requests_get directory store
     = (case pass_writes P requests_get directory of
          (logged, r) \<Rightarrow> (logged, then_do r (\<lambda>ws. Inr (fold apply_write ws store))))"
proof (induction directory arbitrary: store)
  case Nil
  show ?case by (simp add: then_do_def)
next
  case (Cons plant rest)
  show ?case
    by (simp add: Cons.IH reconcile_writes then_do_def split: prod.splits sum.splits)
qed



section \<open>Facts about the synchronisation pass\<close>

lemmas demo_defs = demo_provider_def demo_platform_def demo_point_def answer_def demo_db_def
  scenario_plant_def second_plant_def third_plant_def

lemmas pass_defs = update_forecast_data_def get_solcast_forecast_def then_do_def period_end_def
  measured_def float_field_def upsert_def new_forecast_def set_measures_def next_id_def

lemma update_forecast_data_writes:
  "update_forecast_data P requests_get db
     = (case pass_writes P requests_get (plants db) of
          (logged, Inl e) \<Rightarrow> (logged, Inl e)
        | (logged, Inr ws) \<Rightarrow> (logged, Inr (db\<lparr>forecasts := fold apply_write ws (forecasts db)\<rparr>)))"
  by (simp add: update_forecast_data_def update_loop_writes then_do_def
      split: prod.splits sum.splits)

text \<open>
  Claim C2. Reconciliation is idempotent. When reconciling the points of a plant into a
  store returns a store, reconciling the same points into that store returns it unchanged;
  and when a whole pass commits a database, a second pass with the same provider answers
  commits the very same database (and logs the same).
\<close>

theorem reconcile_idempotent:
  "(reconcile P pid points store = Inr store' \<longrightarrow> reconcile P pid points store' = Inr store')
   \<and> (update_forecast_data P requests_get db = (logged, Inr db')
        \<longrightarrow> update_forecast_data P requests_get db' = (logged, Inr db'))"
proof (intro conjI impI)
  assume "reconcile P pid points store = Inr store'"
  then obtain ws where "point_writes P pid points = Inr ws" "store' = fold apply_write ws store"
    by (auto simp: reconcile_writes then_do_def split: sum.splits)
  then show "reconcile P pid points store' = Inr store'"
    by (simp add: reconcile_writes then_do_def fold_write_idem)
next
  assume "update_forecast_data P requests_get db = (logged, Inr db')"
  then obtain ws where ws: "pass_writes P requests_get (plants db) = (logged, Inr ws)"
      and db': "db' = db\<lparr>forecasts := fold apply_write ws (forecasts db)\<rparr>"
    by (auto simp: update_forecast_data_writes split: prod.splits sum.splits)
  show "update_forecast_data P requests_get db' = (logged, Inr db')"
    by (simp add: update_forecast_data_writes db' ws fold_write_idem)
qed

lemma update_forecast_data_distinct:
  assumes "distinct (map fkey (forecasts db))"
  shows "distinct (map fkey (forecasts (after_pass db (update_forecast_data P requests_get db))))"
  using assms
  by (auto simp: after_pass_def update_forecast_data_writes distinct_fold_write
      split: prod.splits sum.splits)

text \<open>
  Claim C3. Key uniqueness is an invariant of the forecast store: when no two rows of the
  store share plant and timestamp, then after any history of passes, each over any plant
  directory and any provider answers (repeated timestamps included), still no two rows do.
\<close>

theorem key_uniqueness_invariant:
  "distinct (map fkey (forecasts db))
     \<Longrightarrow> distinct (map fkey (forecasts (run_passes P passes db)))"
proof (induction passes arbitrary: db)
  case Nil
  then show ?case by simp
next
  case (Cons pass rest)
  obtain requests_get directory where pass: "pass = (requests_get, directory)"
    by (cases pass)
  have "distinct (map fkey (forecasts (db\<lparr>plants := directory\<rparr>)))"
    using Cons.prems by simp
  then have "distinct (map fkey (forecasts (after_pass (db\<lparr>plants := directory\<rparr>)
      (update_forecast_data P requests_get (db\<lparr>plants := directory\<rparr>)))))"
    by (rule update_forecast_data_distinct)
  then show ?case
    unfolding pass by (simp add: Cons.IH)
qed

lemma pass_writes_skip:
  "snd (pass_writes P requests_get (filter (\<lambda>p. \<not> fetch_refused requests_get p) directory))
     = snd (pass_writes P requests_get directory)"
proof (induction directory)
  case Nil
  show ?case by simp
next
  case (Cons plant rest)
  show ?case
  proof (cases "fetch_refused requests_get plant")
    case True
    then have "get_solcast_forecast requests_get (latitude plant) (longitude plant)
        = ([Failed_to_fetch (status_code (projr (requests_get (latitude plant) (longitude plant))))],
           Inr JNull)"
      by (auto simp: fetch_refused_def get_solcast_forecast_def split: sum.splits)
    with True Cons.IH show ?thesis
      by (simp split: prod.splits)
  next
    case False
    with Cons.IH show ?thesis
      by (auto split: prod.splits sum.splits)
  qed
qed

lemma pass_writes_raises:
  "\<exists>p \<in> set directory. plant_raises P requests_get p
     \<Longrightarrow> isl (snd (pass_writes P requests_get directory))"
proof (induction directory)
  case Nil
  then show ?case by simp
next
  case (Cons plant rest)
  show ?case
  proof (cases "plant_raises P requests_get plant")
    case True
    then show ?thesis
      by (auto simp: plant_raises_def isl_def split: prod.splits sum.splits)
  next
    case False
    with Cons.prems have "isl (snd (pass_writes P requests_get rest))"
      by (auto intro: Cons.IH)
    then show ?thesis
      by (auto simp: isl_def then_do_def split: prod.splits sum.splits)
  qed
qed

text \<open>
  Claim C4, as amended. A plant whose fetch is answered with a status other than 200 is
  skipped: the pass stores, or fails, exactly as it does on the directory without such
  plants, so the forecasts of the other plants are reconciled and committed. An exception
  raised for some plant, in the fetch or in the reconciliation, is not isolated: the pass
  ends with an exception and the database stays as it was.
\<close>

theorem refused_fetch_isolated:
  "map_sum (\<lambda>e. e) forecasts (snd (update_forecast_data P requests_get db))
     = map_sum (\<lambda>e. e) forecasts (snd (update_forecast_data P requests_get
         (db\<lparr>plants := filter (\<lambda>p. \<not> fetch_refused requests_get p) (plants db)\<rparr>)))
   \<and> ((\<exists>p \<in> set (plants db). plant_raises P requests_get p)
        \<longrightarrow> isl (snd (update_forecast_data P requests_get db))
            \<and> after_pass db (update_forecast_data P requests_get db) = db)"
proof (intro conjI impI)
  have "snd (pass_writes P requests_get (filter (\<lambda>p. \<not> fetch_refused requests_get p) (plants db)))
     = snd (pass_writes P requests_get (plants db))"
    by (rule pass_writes_skip)
  then show "map_sum (\<lambda>e. e) forecasts (snd (update_forecast_data P requests_get db))
     = map_sum (\<lambda>e. e) forecasts (snd (update_forecast_data P requests_get
         (db\<lparr>plants := filter (\<lambda>p. \<not> fetch_refused requests_get p) (plants db)\<rparr>)))"
    by (auto simp: update_forecast_data_writes split: prod.splits sum.splits)
next
  assume "\<exists>p \<in> set (plants db). plant_raises P requests_get p"
  then have r: "isl (snd (pass_writes P requests_get (plants db)))"
    by (rule pass_writes_raises)
  then show "isl (snd (update_forecast_data P requests_get db))"
    by (auto simp: update_forecast_data_writes isl_def split: prod.splits sum.splits)
  from r show "after_pass db (update_forecast_data P requests_get db) = db"
    by (auto simp: update_forecast_data_writes after_pass_def isl_def split: prod.splits sum.splits)
qed

text \<open>
  Claim C5, as amended. The fetch raises what the request raises; on a status other than 200
  it logs the status and returns \<^verbatim>\<open>None\<close> without raising; on status 200 it raises
  when the body is not JSON, and otherwise returns or raises exactly what looking up
  \<^verbatim>\<open>'forecasts'\<close> in the body does, so the list is returned whole and its entries are
  not inspected.
\<close>

theorem fetch_outcomes:
  "(requests_get lat lon = Inl e
      \<longrightarrow> get_solcast_forecast requests_get lat lon = ([], Inl e))
   \<and> (requests_get lat lon = Inr (Response status b) \<and> status \<noteq> 200
      \<longrightarrow> get_solcast_forecast requests_get lat lon = ([Failed_to_fetch status], Inr JNull))
   \<and> (requests_get lat lon = Inr (Response 200 None)
      \<longrightarrow> get_solcast_forecast requests_get lat lon = ([], Inl JSONDecodeError))
   \<and> (requests_get lat lon = Inr (Response 200 (Some j))
      \<longrightarrow> get_solcast_forecast requests_get lat lon = ([], getitem j ''forecasts''))"
  by (simp add: get_solcast_forecast_def)

lemma demo_pass:
  "update_forecast_data demo_platform demo_provider (demo_db [scenario_plant, third_plant])
   = ([Failed_to_fetch 503],
      Inr ((demo_db [scenario_plant, third_plant])\<lparr>forecasts :=
        [\<lparr>forecast.id = 1, plant_id = 1, timestamp = 0, ghi = 300, dni = 600, dhi = 100,
          air_temp = 25, cloud_opacity = 0\<rparr>,
         \<lparr>forecast.id = 2, plant_id = 1, timestamp = 1800000000, ghi = 400, dni = 600, dhi = 100,
          air_temp = 25, cloud_opacity = 0\<rparr>]\<rparr>))"
  by (simp add: demo_defs pass_defs)

lemma demo_reconcile:
  "reconcile demo_platform 1
     [demo_point ''2024-01-01T00:00:00'' 500, demo_point ''2024-01-01T00:00:00'' 300] []
   = Inr [\<lparr>forecast.id = 1, plant_id = 1, timestamp = 0, ghi = 300, dni = 600, dhi = 100,
          air_temp = 25, cloud_opacity = 0\<rparr>]"
  by (simp add: demo_defs pass_defs)

text \<open>
  Claim C2 at two points of one instant for plant 1, and at a directory of the scenario plant
  and of a plant the provider refuses.
\<close>

theorem reconcile_idempotent_witness:
  "reconcile demo_platform 1
     [demo_point ''2024-01-01T00:00:00'' 500, demo_point ''2024-01-01T00:00:00'' 300]
     [\<lparr>forecast.id = 1, plant_id = 1, timestamp = 0, ghi = 300, dni = 600, dhi = 100,
       air_temp = 25, cloud_opacity = 0\<rparr>]
   = Inr [\<lparr>forecast.id = 1, plant_id = 1, timestamp = 0, ghi = 300, dni = 600, dhi = 100,
          air_temp = 25, cloud_opacity = 0\<rparr>]
   \<and> update_forecast_data demo_platform demo_provider
        ((demo_db [scenario_plant, third_plant])\<lparr>forecasts :=
          [\<lparr>forecast.id = 1, plant_id = 1, timestamp = 0, ghi = 300, dni = 600, dhi = 100,
            air_temp = 25, cloud_opacity = 0\<rparr>,
           \<lparr>forecast.id = 2, plant_id = 1, timestamp = 1800000000, ghi = 400, dni = 600,
            dhi = 100, air_temp = 25, cloud_opacity = 0\<rparr>]\<rparr>)
     = ([Failed_to_fetch 503],
        Inr ((demo_db [scenario_plant, third_plant])\<lparr>forecasts :=
          [\<lparr>forecast.id = 1, plant_id = 1, timestamp = 0, ghi = 300, dni = 600, dhi = 100,
            air_temp = 25, cloud_opacity = 0\<rparr>,
           \<lparr>forecast.id = 2, plant_id = 1, timestamp = 1800000000, ghi = 400, dni = 600,
            dhi = 100, air_temp = 25, cloud_opacity = 0\<rparr>]\<rparr>))"
  using reconcile_idempotent [THEN conjunct1, rule_format, OF demo_reconcile]
    reconcile_idempotent [THEN conjunct2, rule_format, OF demo_pass]
  by (rule conjI)

lemma demo_history:
  "forecasts (run_passes demo_platform
      [(demo_provider, [scenario_plant, third_plant]),
       (demo_provider, [scenario_plant, second_plant]),
       (demo_provider, [third_plant, scenario_plant])] (demo_db []))
   = [\<lparr>forecast.id = 1, plant_id = 1, timestamp = 0, ghi = 300, dni = 600, dhi = 100,
       air_temp = 25, cloud_opacity = 0\<rparr>,
      \<lparr>forecast.id = 2, plant_id = 1, timestamp = 1800000000, ghi = 400, dni = 600,
       dhi = 100, air_temp = 25, cloud_opacity = 0\<rparr>]"
  by (simp add: demo_defs pass_defs after_pass_def)

text \<open>
  Claim C3 at three passes from the empty store: the answer for the scenario plant repeats
  an instant, the second pass is aborted, and two rows are stored in the end.
\<close>

theorem key_uniqueness_invariant_witness:
  "distinct (map fkey (forecasts (run_passes demo_platform
      [(demo_provider, [scenario_plant, third_plant]),
       (demo_provider, [scenario_plant, second_plant]),
       (demo_provider, [third_plant, scenario_plant])] (demo_db []))))
   \<and> length (forecasts (run_passes demo_platform
      [(demo_provider, [scenario_plant, third_plant]),
       (demo_provider, [scenario_plant, second_plant]),
       (demo_provider, [third_plant, scenario_plant])] (demo_db []))) = 2"
proof -
  have "distinct (map fkey (forecasts (demo_db [])))"
    by (simp add: demo_db_def)
  then have "distinct (map fkey (forecasts (run_passes demo_platform
      [(demo_provider, [scenario_plant, third_plant]),
       (demo_provider, [scenario_plant, second_plant]),
       (demo_provider, [third_plant, scenario_plant])] (demo_db []))))"
    by (rule key_uniqueness_invariant)
  moreover have "length (forecasts (run_passes demo_platform
      [(demo_provider, [scenario_plant, third_plant]),
       (demo_provider, [scenario_plant, second_plant]),
       (demo_provider, [third_plant, scenario_plant])] (demo_db []))) = 2"
    by (simp only: demo_history) simp
  ultimately show ?thesis by (rule conjI)
qed

text \<open>
  Claim C4 as first stated fails: when the answer for the first of two plants lacks a field,
  the pass ends with \<^verbatim>\<open>KeyError\<close> and the store stays empty, although the other plant
  alone would have had its two rows committed.
\<close>

theorem malformed_answer_aborts_pass:
  "update_forecast_data demo_platform demo_provider (demo_db [second_plant, scenario_plant])
     = ([], Inl (KeyError ''ghi''))
   \<and> forecasts (after_pass (demo_db [second_plant, scenario_plant])
        (update_forecast_data demo_platform demo_provider (demo_db [second_plant, scenario_plant])))
     = []
   \<and> update_forecast_data demo_platform demo_provider (demo_db [scenario_plant])
     = ([], Inr ((demo_db [scenario_plant])\<lparr>forecasts :=
          [\<lparr>forecast.id = 1, plant_id = 1, timestamp = 0, ghi = 300, dni = 600, dhi = 100,
            air_temp = 25, cloud_opacity = 0\<rparr>,
           \<lparr>forecast.id = 2, plant_id = 1, timestamp = 1800000000, ghi = 400, dni = 600,
            dhi = 100, air_temp = 25, cloud_opacity = 0\<rparr>]\<rparr>))"
  by (simp add: demo_defs pass_defs after_pass_def)

text \<open>
  The amended claim C4 at a directory with a refused plant, and at one with a plant whose
  answer lacks a field.
\<close>

theorem refused_fetch_isolated_witness:
  "map_sum (\<lambda>e. e) forecasts
      (snd (update_forecast_data demo_platform demo_provider (demo_db [scenario_plant, third_plant])))
     = map_sum (\<lambda>e. e) forecasts
      (snd (update_forecast_data demo_platform demo_provider (demo_db [scenario_plant])))
   \<and> isl (snd (update_forecast_data demo_platform demo_provider
        (demo_db [scenario_plant, second_plant])))"
proof -
  have "(demo_db [scenario_plant, third_plant])
          \<lparr>plants := filter (\<lambda>p. \<not> fetch_refused demo_provider p)
             (plants (demo_db [scenario_plant, third_plant]))\<rparr>
        = demo_db [scenario_plant]"
    by (simp add: demo_defs fetch_refused_def)
  moreover have "\<exists>p \<in> set (plants (demo_db [scenario_plant, second_plant])).
      plant_raises demo_platform demo_provider p"
    by (simp add: demo_defs pass_defs plant_raises_def)
  ultimately show ?thesis
    using refused_fetch_isolated [of demo_platform demo_provider "demo_db [scenario_plant, third_plant]"]
      refused_fetch_isolated [of demo_platform demo_provider "demo_db [scenario_plant, second_plant]"]
    by simp
qed

text \<open>
  Claim C5 as first stated fails: a status-503 answer makes the fetch return \<^verbatim>\<open>None\<close>,
  not fail, and a status-200 answer whose entry lacks its measurements is returned as it is.
\<close>

theorem fetch_returns_without_error:
  "get_solcast_forecast demo_provider 9 80 = ([Failed_to_fetch 503], Inr JNull)
   \<and> get_solcast_forecast demo_provider 8 80
     = ([], Inr (JArr [JObj [(''period_end'', JStr ''2024-01-01T00:00:00'')]]))"
  by (simp add: demo_defs get_solcast_forecast_def)

text \<open>The amended claim C5 at one provider for each of its four cases.\<close>

theorem fetch_outcomes_witness:
  "get_solcast_forecast (\<lambda>lat lon. Inl ConnectionError) 0 0 = ([], Inl ConnectionError)
   \<and> get_solcast_forecast demo_provider 0 0 = ([Failed_to_fetch 503], Inr JNull)
   \<and> get_solcast_forecast (\<lambda>lat lon. Inr (Response 200 None)) 0 0 = ([], Inl JSONDecodeError)
   \<and> get_solcast_forecast demo_provider 8 0
     = ([], Inr (JArr [JObj [(''period_end'', JStr ''2024-01-01T00:00:00'')]]))"
proof -
  have a: "demo_provider 0 0 = Inr (Response 503 None) \<and> (503::int) \<noteq> 200"
    by (simp add: demo_provider_def)
  have b: "demo_provider 8 0 = Inr (Response 200 (Some (JObj
      [(''forecasts'', JArr [JObj [(''period_end'', JStr ''2024-01-01T00:00:00'')]])])))"
    by (simp add: demo_provider_def answer_def)
  have "get_solcast_forecast (\<lambda>lat lon. Inl ConnectionError) 0 0 = ([], Inl ConnectionError)"
    using fetch_outcomes [of "\<lambda>lat lon. Inl ConnectionError" 0 0 ConnectionError] by simp
  moreover have "get_solcast_forecast demo_provider 0 0 = ([Failed_to_fetch 503], Inr JNull)"
    using fetch_outcomes [of demo_provider 0 0 _ 503 None] a by simp
  moreover have "get_solcast_forecast (\<lambda>lat lon. Inr (Response 200 None)) 0 0
      = ([], Inl JSONDecodeError)"
    using fetch_outcomes [of "\<lambda>lat lon. Inr (Response 200 None)" 0 0] by simp
  moreover have "get_solcast_forecast demo_provider 8 0
     = ([], Inr (JArr [JObj [(''period_end'', JStr ''2024-01-01T00:00:00'')]]))"
    using fetch_outcomes [of demo_provider 8 0 _ _ _
        "JObj [(''forecasts'', JArr [JObj [(''period_end'', JStr ''2024-01-01T00:00:00'')]])]"] b
    by simp
  ultimately show ?thesis by simp
qed

section \<open>Facts about the read endpoints\<close>

lemma find_user_plant:
  "find (\<lambda>p. plant.user_id p = uid \<and> plant.name p = n) directory = Some plant
     \<Longrightarrow> plant \<in> set directory \<and> plant.user_id plant = uid \<and> plant.name plant = n"
  by (auto simp: find_Some_iff)

lemma plant_forecasts_own:
  "f \<in> set (plant_forecasts db plant) \<Longrightarrow> forecast.plant_id f = plant.id plant"
  by (simp add: plant_forecasts_def)

lemma plant_performances_own:
  "r \<in> set (plant_performances db plant) \<Longrightarrow> plant_performance.plant_id r = plant.id plant"
  by (auto simp: plant_performances_def dest: in_set_takeD)

text \<open>
  Claim C10, as amended. A read endpoint answers 200 only with the rows of a plant that
  carries the requested name and is owned by the user row of the token's identity. When that
  user row exists and owns no plant of the name (whoever else owns one), the answer is 404
  with \<^verbatim>\<open>Plant not found\<close>; when the identity has no user row, the answer is 404 with
  \<^verbatim>\<open>User not found\<close>.
\<close>

theorem read_endpoints_owner_only:
  "(get_forecast P db current_user plant_name = (reply, 200) \<longrightarrow>
      (\<exists>user plant. find (\<lambda>u. username u = current_user) (users db) = Some user
         \<and> plant \<in> set (plants db) \<and> plant.user_id plant = user.id user
         \<and> plant.name plant = plant_name
         \<and> reply = JArr (map (forecast_entry P) (plant_forecasts db plant))
         \<and> (\<forall>f \<in> set (plant_forecasts db plant). forecast.plant_id f = plant.id plant)))
   \<and> (get_performance P db current_user plant_name = (reply, 200) \<longrightarrow>
      (\<exists>user plant. find (\<lambda>u. username u = current_user) (users db) = Some user
         \<and> plant \<in> set (plants db) \<and> plant.user_id plant = user.id user
         \<and> plant.name plant = plant_name
         \<and> reply = JArr (map (performance_entry P) (plant_performances db plant))
         \<and> (\<forall>r \<in> set (plant_performances db plant).
               plant_performance.plant_id r = plant.id plant)))
   \<and> (find (\<lambda>u. username u = current_user) (users db) = Some user
        \<and> (\<forall>p \<in> set (plants db). \<not> (plant.user_id p = user.id user \<and> plant.name p = plant_name))
      \<longrightarrow> get_forecast P db current_user plant_name = (msg ''Plant not found'', 404)
          \<and> get_performance P db current_user plant_name = (msg ''Plant not found'', 404))
   \<and> (find (\<lambda>u. username u = current_user) (users db) = None
      \<longrightarrow> get_forecast P db current_user plant_name = (msg ''User not found'', 404)
          \<and> get_performance P db current_user plant_name = (msg ''User not found'', 404))"
proof (intro conjI impI)
  assume "get_forecast P db current_user plant_name = (reply, 200)"
  then obtain user plant where "find (\<lambda>u. username u = current_user) (users db) = Some user"
    and "find (\<lambda>p. plant.user_id p = user.id user \<and> plant.name p = plant_name) (plants db) = Some plant"
    and "reply = JArr (map (forecast_entry P) (plant_forecasts db plant))"
    by (auto simp: get_forecast_def split: option.splits)
  then show "\<exists>user plant. find (\<lambda>u. username u = current_user) (users db) = Some user
         \<and> plant \<in> set (plants db) \<and> plant.user_id plant = user.id user
         \<and> plant.name plant = plant_name
         \<and> reply = JArr (map (forecast_entry P) (plant_forecasts db plant))
         \<and> (\<forall>f \<in> set (plant_forecasts db plant). forecast.plant_id f = plant.id plant)"
    using find_user_plant plant_forecasts_own by blast
next
  assume "get_performance P db current_user plant_name = (reply, 200)"
  then obtain user plant where "find (\<lambda>u. username u = current_user) (users db) = Some user"
    and "find (\<lambda>p. plant.user_id p = user.id user \<and> plant.name p = plant_name) (plants db) = Some plant"
    and "reply = JArr (map (performance_entry P) (plant_performances db plant))"
    by (auto simp: get_performance_def split: option.splits)
  then show "\<exists>user plant. find (\<lambda>u. username u = current_user) (users db) = Some user
         \<and> plant \<in> set (plants db) \<and> plant.user_id plant = user.id user
         \<and> plant.name plant = plant_name
         \<and> reply = JArr (map (performance_entry P) (plant_performances db plant))
         \<and> (\<forall>r \<in> set (plant_performances db plant).
               plant_performance.plant_id r = plant.id plant)"
    using find_user_plant plant_performances_own by blast
next
  assume a: "find (\<lambda>u. username u = current_user) (users db) = Some user
        \<and> (\<forall>p \<in> set (plants db). \<not> (plant.user_id p = user.id user \<and> plant.name p = plant_name))"
  then have n: "find (\<lambda>p. plant.user_id p = user.id user \<and> plant.name p = plant_name) (plants db) = None"
    by (simp add: find_None_iff)
  from a n show "get_forecast P db current_user plant_name = (msg ''Plant not found'', 404)"
    by (simp add: get_forecast_def)
  from a n show "get_performance P db current_user plant_name = (msg ''Plant not found'', 404)"
    by (simp add: get_performance_def)
next
  assume "find (\<lambda>u. username u = current_user) (users db) = None"
  then show "get_forecast P db current_user plant_name = (msg ''User not found'', 404)"
    and "get_performance P db current_user plant_name = (msg ''User not found'', 404)"
    by (simp_all add: get_forecast_def get_performance_def)
qed

text \<open>
  Claim C10 as first stated fails: for an identity without a user row no plant of the name is
  owned by that user, and the answer is \<^verbatim>\<open>User not found\<close>, not \<^verbatim>\<open>Plant not found\<close>.
\<close>

theorem unknown_identity_user_not_found:
  "get_forecast demo_platform ((demo_db [scenario_plant])\<lparr>forecasts := [scenario_point]\<rparr>)
      ''carol'' ''roof'' = (msg ''User not found'', 404)
   \<and> get_performance demo_platform ((demo_db [scenario_plant])\<lparr>forecasts := [scenario_point]\<rparr>)
      ''carol'' ''roof'' = (msg ''User not found'', 404)
   \<and> msg ''User not found'' \<noteq> msg ''Plant not found''"
  by (simp add: get_forecast_def get_performance_def demo_db_def msg_def)

text \<open>
  The amended claim C10 at a database of two users: the owner reads her plant, the other
  user reads his own, is refused hers, and an unknown identity is refused.
\<close>

theorem read_endpoints_owner_only_witness:
  "(\<exists>user plant.
      find (\<lambda>u. username u = ''alice'')
        (users ((demo_db [scenario_plant, third_plant])\<lparr>forecasts := [scenario_point]\<rparr>)) = Some user
      \<and> plant \<in> set (plants ((demo_db [scenario_plant, third_plant])\<lparr>forecasts := [scenario_point]\<rparr>))
      \<and> plant.user_id plant = user.id user \<and> plant.name plant = ''roof''
      \<and> JArr [forecast_entry demo_platform scenario_point]
          = JArr (map (forecast_entry demo_platform)
              (plant_forecasts ((demo_db [scenario_plant, third_plant])\<lparr>forecasts := [scenario_point]\<rparr>) plant))
      \<and> (\<forall>f \<in> set (plant_forecasts
              ((demo_db [scenario_plant, third_plant])\<lparr>forecasts := [scenario_point]\<rparr>) plant).
            forecast.plant_id f = plant.id plant))
   \<and> (\<exists>user plant.
      find (\<lambda>u. username u = ''bob'')
        (users ((demo_db [scenario_plant, third_plant])\<lparr>forecasts := [scenario_point]\<rparr>)) = Some user
      \<and> plant \<in> set (plants ((demo_db [scenario_plant, third_plant])\<lparr>forecasts := [scenario_point]\<rparr>))
      \<and> plant.user_id plant = user.id user \<and> plant.name plant = ''barn''
      \<and> JArr []
          = JArr (map (performance_entry demo_platform)
              (plant_performances ((demo_db [scenario_plant, third_plant])\<lparr>forecasts := [scenario_point]\<rparr>) plant))
      \<and> (\<forall>r \<in> set (plant_performances
              ((demo_db [scenario_plant, third_plant])\<lparr>forecasts := [scenario_point]\<rparr>) plant).
            plant_performance.plant_id r = plant.id plant))
   \<and> (get_forecast demo_platform ((demo_db [scenario_plant, third_plant])\<lparr>forecasts := [scenario_point]\<rparr>)
        ''bob'' ''roof'' = (msg ''Plant not found'', 404)
      \<and> get_performance demo_platform ((demo_db [scenario_plant, third_plant])\<lparr>forecasts := [scenario_point]\<rparr>)
        ''bob'' ''roof'' = (msg ''Plant not found'', 404))
   \<and> (get_forecast demo_platform ((demo_db [scenario_plant, third_plant])\<lparr>forecasts := [scenario_point]\<rparr>)
        ''dave'' ''roof'' = (msg ''User not found'', 404)
      \<and> get_performance demo_platform ((demo_db [scenario_plant, third_plant])\<lparr>forecasts := [scenario_point]\<rparr>)
        ''dave'' ''roof'' = (msg ''User not found'', 404))"
proof -
  let ?db = "(demo_db [scenario_plant, third_plant])\<lparr>forecasts := [scenario_point]\<rparr>"
  let ?bob = "\<lparr>user.id = 2, username = ''bob'', password = ''b''\<rparr>"
  have f: "get_forecast demo_platform ?db ''alice'' ''roof''
      = (JArr [forecast_entry demo_platform scenario_point], 200)"
    by (simp add: get_forecast_def plant_forecasts_def demo_defs scenario_point_def)
  have p: "get_performance demo_platform ?db ''bob'' ''barn'' = (JArr [], 200)"
    by (simp add: get_performance_def plant_performances_def demo_defs)
  have n: "find (\<lambda>u. username u = ''bob'') (users ?db) = Some ?bob
        \<and> (\<forall>p \<in> set (plants ?db). \<not> (plant.user_id p = user.id ?bob \<and> plant.name p = ''roof''))"
    by (simp add: demo_defs)
  have u: "find (\<lambda>u. username u = ''dave'') (users ?db) = None"
    by (simp add: demo_defs)
  note owner_forecast = read_endpoints_owner_only [THEN conjunct1, rule_format, OF f]
  note owner_performance =
    read_endpoints_owner_only [THEN conjunct2, THEN conjunct1, rule_format, OF p]
  note no_plant =
    read_endpoints_owner_only [THEN conjunct2, THEN conjunct2, THEN conjunct1, rule_format, OF n]
  note no_user =
    read_endpoints_owner_only [THEN conjunct2, THEN conjunct2, THEN conjunct2, rule_format, OF u]
  show ?thesis
    by (rule conjI [OF owner_forecast conjI [OF owner_performance conjI [OF no_plant no_user]]])
qed


end
